theory Spec2Isabelle
  imports Main
begin

section \<open>Values shared by the two source files\<close>

text \<open>
  A Go \<open>error\<close> is an interface value. The only dynamic type the program ever tests for is
  \<open>packages.Error\<close> (a struct with the fields \<open>Pos\<close>, \<open>Msg\<close> and \<open>Kind\<close>); every other
  error (from \<open>fmt.Errorf\<close>, \<open>os.Stat\<close>, the importers, ...) is kept with its message.
\<close>

record packages_Error =
  Pos :: string
  Msg :: string
  Kind :: nat

datatype error = PackagesError packages_Error | OtherError string

section \<open>Standard-library string and path functions\<close>

text \<open>
  Go strings are byte sequences, as \<open>string\<close> is here. \<open>strings.HasPrefix\<close> and
  \<open>strings.HasSuffix\<close> are written as the library writes them, with slices.
\<close>

definition HasPrefix :: "string \<Rightarrow> string \<Rightarrow> bool" where
  "HasPrefix s prefix = (length s \<ge> length prefix \<and> take (length prefix) s = prefix)"

definition HasSuffix :: "string \<Rightarrow> string \<Rightarrow> bool" where
  "HasSuffix s suffix =
     (length s \<ge> length suffix \<and> drop (length s - length suffix) s = suffix)"

text \<open>
  \<open>strings.Split s sep\<close> for a one-byte separator (the program only splits at \<open>":"\<close> and the
  path functions at \<open>"/"\<close>): the pieces between the separators, always at least one piece.
  The second argument of \<open>split_acc\<close> is the piece being read, reversed.
\<close>

fun split_acc :: "char \<Rightarrow> string \<Rightarrow> string \<Rightarrow> string list" where
  "split_acc sep acc [] = [rev acc]"
| "split_acc sep acc (c # cs) =
     (if c = sep then rev acc # split_acc sep [] cs else split_acc sep (c # acc) cs)"

definition Split :: "string \<Rightarrow> char \<Rightarrow> string list" where
  "Split s sep = split_acc sep [] s"

fun Join_strings :: "string list \<Rightarrow> string \<Rightarrow> string" where
  "Join_strings [] sep = []"
| "Join_strings [x] sep = x"
| "Join_strings (x # y # ys) sep = x @ sep @ Join_strings (y # ys) sep"

text \<open>
  \<open>Clean\<close> of \<open>path\<close> and \<open>path/filepath\<close> on a system whose separator is \<open>/\<close>: empty and
  \<open>.\<close> elements are dropped, \<open>..\<close> removes the element before it (at the root it is
  dropped, at the start of a relative path it is kept), and the empty result is \<open>.\<close>.
  \<open>clean_step\<close> keeps the elements read so far, the last one first.
\<close>

definition clean_step :: "bool \<Rightarrow> string list \<Rightarrow> string \<Rightarrow> string list" where
  "clean_step rooted out elem =
     (if elem = [] \<or> elem = ''.'' then out
      else if elem = ''..'' then
        (case out of
           [] \<Rightarrow> if rooted then [] else [''..'']
         | e # es \<Rightarrow> if e = ''..'' then ''..'' # e # es else es)
      else elem # out)"

definition Clean :: "string \<Rightarrow> string" where
  "Clean path =
     (if path = [] then ''.''
      else
        let rooted = (hd path = CHR ''/'');
            out = rev (foldl (clean_step rooted) [] (Split path CHR ''/''))
        in if rooted then ''/'' @ Join_strings out ''/''
           else if out = [] then ''.'' else Join_strings out ''/'')"

text \<open>\<open>path.Join\<close> and \<open>filepath.Join\<close> of two elements: empty elements in front are ignored.\<close>

definition Join :: "string \<Rightarrow> string \<Rightarrow> string" where
  "Join a b =
     (if a = [] \<and> b = [] then []
      else if a = [] then Clean b
      else Clean (a @ ''/'' @ b))"

text \<open>
  \<open>filepath.Dir\<close>: everything up to and including the last separator, cleaned.
\<close>

definition filepath_Dir :: "string \<Rightarrow> string" where
  "filepath_Dir path = Clean (rev (dropWhile (\<lambda>c. c \<noteq> CHR ''/'') (rev path)))"

text \<open>
  \<open>filepath.Abs\<close>: an absolute path is cleaned; a relative one is joined to the result of
  \<open>os.Getwd\<close>, whose failure is returned with the empty string. The first argument is what
  \<open>os.Getwd\<close> returns.
\<close>

definition filepath_Abs :: "error + string \<Rightarrow> string \<Rightarrow> string \<times> error option" where
  "filepath_Abs getwd path =
     (if HasPrefix path ''/'' then (Clean path, None)
      else case getwd of
             Inl err \<Rightarrow> ([], Some err)
           | Inr wd \<Rightarrow> (Join wd path, None))"

section \<open>importer.go\<close>

text \<open>
  A \<open>*types.Package\<close> is a pointer that may be nil; a Go result \<open>(pkg, err)\<close> is a pair of
  a nullable pointer and a nullable error.
\<close>

datatype types_Package = Package string

type_synonym pkg_ptr = "types_Package option"

type_synonym ImportMode = int

type_synonym import_result = "pkg_ptr \<times> error option"

datatype ast_File = File string

record build_Package =
  Dir :: string
  GoFiles :: "string list"
  CgoFiles :: "string list"
  TestGoFiles :: "string list"

text \<open>
  \<open>i.config.Check\<close> is the external type checker. While it runs it may call back into the
  importer it was configured with, once per import declaration it meets, and what it does
  next may depend on each answer. A run of the checker is therefore a tree: it either
  returns its \<open>(pkg, err)\<close>, or asks for \<open>ImportFrom path srcDir mode\<close> and continues with
  the answer. (\<open>go/types\<close> calls \<open>ImportFrom\<close>, not \<open>Import\<close>, on an importer that has both.)
  A checker configured with some other importer is a tree without questions.
\<close>

datatype engine =
  Return pkg_ptr "error option"
| Resolve string string ImportMode "pkg_ptr \<Rightarrow> error option \<Rightarrow> engine"

text \<open>
  Invocations of the collaborators, in the order they happen. The list is not a field of
  the Go struct: it is kept beside the cache so that "is not invoked" can be stated.
\<close>

datatype call =
  FastImport string
| FastImportFrom string string ImportMode
| BuildImport string string
| ParseFiles string "string list"
| ConfigCheck string "ast_File list"

record Importer =
  mainImporter_Import :: "string \<Rightarrow> import_result"
  mainImporter_ImportFrom :: "string \<Rightarrow> string \<Rightarrow> ImportMode \<Rightarrow> import_result"
  cwd :: string
  packages :: "string \<rightharpoonup> pkg_ptr"
  config_Check :: "string \<Rightarrow> ast_File list \<Rightarrow> engine"
  calls :: "call list"

text \<open>
  The package-level functions \<open>ImportFrom\<close> uses: \<open>build.Default.Import\<close> of the standard
  library, and \<open>parseFiles\<close>, which the repository defines outside the files at hand.
\<close>

record toolchain =
  build_Default_Import :: "string \<Rightarrow> string \<Rightarrow> build_Package \<times> error option"
  parseFiles :: "string \<Rightarrow> string list \<Rightarrow> ast_File list \<times> error option"

definition Import :: "Importer \<Rightarrow> string \<Rightarrow> import_result \<times> Importer" where
  "Import i path =
     (let (pkg, err) = mainImporter_Import i path
      in ((pkg, err), i\<lparr>calls := calls i @ [FastImport path]\<rparr>))"

text \<open>
  \<open>ImportFrom\<close>. The receiver is passed in and returned, since the method writes
  \<open>i.packages\<close> (an allocated map: who builds the \<open>Importer\<close> is not in the files at
  hand). The first argument bounds how deep the type checker and the importer may
  call each other: nothing in the code bounds it, so a run that exceeds it has no result
  (\<open>None\<close>). The inner \<open>err\<close> of the Go code shadows the outer one; the last line returns
  \<open>nil\<close> whatever \<open>Check\<close> assigned to it.
\<close>

fun ImportFrom ::
    "nat \<Rightarrow> toolchain \<Rightarrow> Importer \<Rightarrow> string \<Rightarrow> string \<Rightarrow> ImportMode
       \<Rightarrow> (import_result \<times> Importer) option"
  and run_engine ::
    "nat \<Rightarrow> toolchain \<Rightarrow> Importer \<Rightarrow> engine \<Rightarrow> (import_result \<times> Importer) option"
where
  "ImportFrom n T i path srcDir mode =
     (case packages i path of
        Some pkg \<Rightarrow> Some ((pkg, None), i)
      | None \<Rightarrow>
         (let fullDir = Join (cwd i) srcDir;
              (pkg, err) = mainImporter_ImportFrom i path fullDir mode;
              i1 = i\<lparr>calls := calls i @ [FastImportFrom path fullDir mode]\<rparr>
          in (case err of
                None \<Rightarrow> Some ((pkg, None), i1\<lparr>packages := (packages i1)(path \<mapsto> pkg)\<rparr>)
              | Some _ \<Rightarrow>
                 (let (buildPkg, err) = build_Default_Import T path fullDir;
                      i2 = i1\<lparr>calls := calls i1 @ [BuildImport path fullDir]\<rparr>
                  in (case err of
                        Some e \<Rightarrow> Some ((None, Some e), i2)
                      | None \<Rightarrow>
                         (let filenames = GoFiles buildPkg @ CgoFiles buildPkg;
                              (files, err) = parseFiles T (build_Package.Dir buildPkg) filenames;
                              i3 = i2\<lparr>calls := calls i2 @
                                     [ParseFiles (build_Package.Dir buildPkg) filenames]\<rparr>
                          in (case err of
                                Some e \<Rightarrow> Some ((None, Some e), i3)
                              | None \<Rightarrow>
                                 (case run_engine n T
                                         (i3\<lparr>calls := calls i3 @ [ConfigCheck path files]\<rparr>)
                                         (config_Check i path files) of
                                    None \<Rightarrow> None
                                  | Some ((pkg, err), i4) \<Rightarrow>
                                      Some ((pkg, None),
                                            i4\<lparr>packages := (packages i4)(path \<mapsto> pkg)\<rparr>)))))))))"
| "run_engine n T i (Return pkg err) = Some ((pkg, err), i)"
| "run_engine 0 T i (Resolve path srcDir mode k) = None"
| "run_engine (Suc n) T i (Resolve path srcDir mode k) =
     (case ImportFrom n T i path srcDir mode of
        None \<Rightarrow> None
      | Some ((pkg, err), i') \<Rightarrow> run_engine n T i' (k pkg err))"



section \<open>gotype2.go\<close>

record flags =
  autoFiles :: bool
  usePkgContext :: bool
  workingDir :: string

datatype LoadMode = LoadFiles | LoadImports | LoadTypes | LoadSyntax | LoadAllSyntax

record packages_Config =
  Dir :: string
  Mode :: LoadMode
  Tests :: bool

record packages_Package =
  ID :: string
  Errors :: "packages_Error list"

text \<open>
  What the program asks of the operating system and of \<open>packages.Load\<close>. \<open>os_Stat\<close>
  answers \<open>Inr True\<close> for a directory and \<open>Inr False\<close> for any other file.
\<close>

record os_env =
  os_Stat :: "string \<Rightarrow> error + bool"
  os_Getwd :: "error + string"
  packages_Load :: "packages_Config \<Rightarrow> string \<Rightarrow> packages_Package list \<times> error option"

text \<open>
  The run state: the global \<open>errorCount\<close>, what has been written to standard error, and
  the arguments of every \<open>packages.Load\<close> call made so far. \<open>errorCount\<close> is a Go \<open>int\<close>
  that goes up by one for each diagnostic printed; the diagnostics of a run are all in
  memory at once, far fewer than the counter can hold, so it is an integer without bound
  here.
\<close>

datatype written = ErrorLine error | UsageText

record run_state =
  errorCount :: int
  stderr :: "written list"
  loads :: "(packages_Config \<times> string) list"

definition initial_state :: run_state where
  "initial_state = \<lparr>errorCount = 0, stderr = [], loads = []\<rparr>"

text \<open>The \<open>Error\<close> methods: a \<open>packages.Error\<close> prints its position, or \<open>-\<close> when it has none.\<close>

fun Error :: "error \<Rightarrow> string" where
  "Error (PackagesError err) =
     (let pos = (if Pos err = [] then ''-'' else Pos err) in pos @ '': '' @ Msg err)"
| "Error (OtherError msg) = msg"

definition report :: "error \<Rightarrow> string \<Rightarrow> run_state \<Rightarrow> run_state" where
  "report err pathRestriction st =
     (let printed = st\<lparr>stderr := stderr st @ [ErrorLine err],
                       errorCount := errorCount st + 1\<rparr>
      in if pathRestriction \<noteq> [] then
           (case err of
              PackagesError pkgErr \<Rightarrow>
                (let errFileParts = Split (Pos pkgErr) CHR '':'';
                     errFilePath = errFileParts ! 0
                 in if errFilePath \<noteq> pathRestriction then st else printed)
            | OtherError _ \<Rightarrow> printed)
         else printed)"

definition getPkgFiles :: "os_env \<Rightarrow> string list \<Rightarrow> bool \<Rightarrow> string \<times> string \<times> error option" where
  "getPkgFiles E args useContext =
     (let more_than_one = ([], [], Some (OtherError ''cannot specify more than one path''))
      in if length args = 1 then
           (let path = args ! 0
            in (case os_Stat E path of
                  Inl err \<Rightarrow> ([], [], Some err)
                | Inr isDir \<Rightarrow>
                    if isDir then (path, [], None)
                    else if useContext then
                      (let dirName = filepath_Dir path;
                           dirName = (if HasPrefix path ''./'' then ''./'' @ dirName else dirName)
                       in (dirName, path, None))
                    else more_than_one))
         else more_than_one)"

text \<open>
  \<open>checkPkgFiles\<close> either panics (\<open>Inl\<close>, with the panic's message) or returns with the
  run state it leaves. \<open>filepath.Abs\<close> reads the process's working directory, not \<open>wd\<close>.
\<close>

definition report_all :: "string \<Rightarrow> run_state \<Rightarrow> packages_Error list \<Rightarrow> run_state" where
  "report_all targetFile st errs = foldl (\<lambda>st err. report (PackagesError err) targetFile st) st errs"

definition checkPkgFiles :: "os_env \<Rightarrow> flags \<Rightarrow> string \<Rightarrow> string \<Rightarrow> run_state \<Rightarrow> string + run_state" where
  "checkPkgFiles E fl pkgPath targetFile st =
     (case (if workingDir fl = [] then os_Getwd E else Inr (workingDir fl)) of
        Inl err \<Rightarrow> Inl (Error err)
      | Inr wd \<Rightarrow>
         (let includeTests = (autoFiles fl \<and> targetFile \<noteq> [] \<and> HasSuffix targetFile ''_test.go'');
              cfg = \<lparr>Dir = wd, Mode = LoadTypes, Tests = includeTests\<rparr>;
              (targetFile, err) = filepath_Abs (os_Getwd E) targetFile
          in (case err of
                Some err \<Rightarrow> Inr (report err targetFile st)
              | None \<Rightarrow>
                 (let (roots, err) = packages_Load E cfg pkgPath;
                      st = st\<lparr>loads := loads st @ [(cfg, pkgPath)]\<rparr>
                  in (case err of
                        Some err \<Rightarrow> Inr (report err targetFile st)
                      | None \<Rightarrow>
                          Inr (foldl (\<lambda>st root. report_all targetFile st (Errors root)) st roots))))))"

text \<open>
  \<open>main\<close>, from the result of \<open>flag.Parse\<close>: \<open>None\<close> when the command line does not parse
  (the \<open>flag\<close> package then calls \<open>usage\<close>, which exits with 2), otherwise the flag values and
  the remaining arguments. The result is the final run state and how the process ends:
  \<open>os.Exit\<close> with a code, falling off the end of \<open>main\<close> (code 0), or an unrecovered panic,
  after which the Go runtime ends the process with status 2.
\<close>

datatype ending = Exit nat | Panicked string

fun exit_status :: "ending \<Rightarrow> nat" where
  "exit_status (Exit code) = code"
| "exit_status (Panicked msg) = 2"

definition usage :: "run_state \<Rightarrow> run_state \<times> ending" where
  "usage st = (st\<lparr>stderr := stderr st @ [UsageText]\<rparr>, Exit 2)"

definition main :: "os_env \<Rightarrow> (flags \<times> string list) option \<Rightarrow> run_state \<times> ending" where
  "main E parsed =
     (case parsed of
        None \<Rightarrow> usage initial_state
      | Some (fl, args) \<Rightarrow>
         (case getPkgFiles E args (usePkgContext fl) of
            (pkgPath, targetFile, Some err) \<Rightarrow> (report err [] initial_state, Exit 2)
          | (pkgPath, targetFile, None) \<Rightarrow>
             (case checkPkgFiles E fl pkgPath targetFile initial_state of
                Inl msg \<Rightarrow> (initial_state, Panicked msg)
              | Inr st \<Rightarrow> if errorCount st > 0 then (st, Exit 2) else (st, Exit 0))))"

section \<open>Notions used to state the properties\<close>

text \<open>
  \<open>report\<close> admits a diagnostic when it prints it and counts it; otherwise it returns
  without touching the run state.
\<close>

definition admitted :: "error \<Rightarrow> string \<Rightarrow> run_state \<Rightarrow> bool" where
  "admitted err pathRestriction st =
     (report err pathRestriction st =
        st\<lparr>stderr := stderr st @ [ErrorLine err], errorCount := errorCount st + 1\<rparr>)"

text \<open>
  The \<open>Pos\<close> of a \<open>packages.Error\<close> is \<open>file:line:col\<close>, \<open>file:line\<close>, the empty string or
  \<open>-\<close>; the last two say that the error has no position. Other errors have no \<open>Pos\<close>.
  \<open>position_file\<close> is the \<open>errFilePath\<close> of \<open>report\<close>.
\<close>

fun carries_file_position :: "error \<Rightarrow> bool" where
  "carries_file_position (PackagesError err) = (Pos err \<noteq> [] \<and> Pos err \<noteq> ''-'')"
| "carries_file_position (OtherError msg) = False"

definition position_file :: "packages_Error \<Rightarrow> string" where
  "position_file err = Split (Pos err) CHR '':'' ! 0"

text \<open>The diagnostics among the lines written to standard error.\<close>

fun diagnostics :: "written list \<Rightarrow> error list" where
  "diagnostics [] = []"
| "diagnostics (ErrorLine err # ls) = err # diagnostics ls"
| "diagnostics (UsageText # ls) = diagnostics ls"

text \<open>The counter agrees with what was written: it is the number of diagnostics printed.\<close>

definition counted :: "run_state \<Rightarrow> bool" where
  "counted st \<longleftrightarrow> errorCount st = int (length (diagnostics (stderr st)))"

text \<open>
  A usage error: the command line does not parse, or \<open>getPkgFiles\<close> rejects the paths.
\<close>

definition usage_error :: "os_env \<Rightarrow> (flags \<times> string list) option \<Rightarrow> bool" where
  "usage_error E parsed =
     (case parsed of
        None \<Rightarrow> True
      | Some (fl, args) \<Rightarrow> snd (snd (getPkgFiles E args (usePkgContext fl))) \<noteq> None)"

fun panicked :: "ending \<Rightarrow> bool" where
  "panicked (Exit code) = False"
| "panicked (Panicked msg) = True"

section \<open>Sample collaborators\<close>

text \<open>
  A fast importer that knows only \<open>fmt\<close>; sources on disk for every package but
  \<open>missing\<close>; a parser that fails in \<open>/src/broken\<close>; a type checker that finds an error in
  \<open>bad\<close> and, for \<open>app\<close>, imports \<open>lib\<close>.
\<close>

definition not_found :: import_result where
  "not_found = (None, Some (OtherError ''cannot find package''))"

definition sample_Check :: "string \<Rightarrow> ast_File list \<Rightarrow> engine" where
  "sample_Check path files =
     (if path = ''bad'' then
        Return (Some (Package ''bad'')) (Some (OtherError ''bad.go:1:1: undeclared name: x''))
      else if path = ''app'' then
        Resolve ''lib'' ''/src/app'' 0 (\<lambda>pkg err. Return (Some (Package ''app'')) err)
      else Return (Some (Package path)) None)"

definition sample_Importer :: Importer where
  "sample_Importer =
     \<lparr>mainImporter_Import =
        (\<lambda>path. if path = ''fmt'' then (Some (Package ''fmt''), None) else not_found),
      mainImporter_ImportFrom =
        (\<lambda>path dir mode. if path = ''fmt'' then (Some (Package ''fmt''), None) else not_found),
      cwd = ''/w'',
      packages = Map.empty,
      config_Check = sample_Check,
      calls = []\<rparr>"

definition sample_toolchain :: toolchain where
  "sample_toolchain =
     \<lparr>build_Default_Import =
        (\<lambda>path dir.
           if path = ''missing'' then
             (\<lparr>build_Package.Dir = [], GoFiles = [], CgoFiles = [], TestGoFiles = []\<rparr>,
              Some (OtherError ''cannot find package''))
           else
             (\<lparr>build_Package.Dir = ''/src/'' @ path, GoFiles = [''a.go''], CgoFiles = [''c.go''],
               TestGoFiles = [''a_test.go'']\<rparr>,
              None)),
      parseFiles =
        (\<lambda>dir names.
           if dir = ''/src/broken'' then ([], Some (OtherError ''expected declaration''))
           else (map File names, None))\<rparr>"








text \<open>
  An operating system whose working directory is \<open>/w\<close>, where \<open>/w/pkg\<close> is a directory
  and every other path a file, and a loader that reports two errors, one in \<open>a.go\<close> and
  one in \<open>b.go\<close>; the same system after its working directory has been removed.
\<close>

definition sample_errors :: "packages_Error list" where
  "sample_errors =
     [\<lparr>Pos = ''/w/pkg/a.go:3:1'', Msg = ''undeclared name: x'', Kind = 3\<rparr>,
      \<lparr>Pos = ''/w/pkg/b.go:7:2'', Msg = ''undeclared name: y'', Kind = 3\<rparr>]"

definition sample_os :: os_env where
  "sample_os =
     \<lparr>os_Stat = (\<lambda>path. Inr (path = ''/w/pkg'')),
      os_Getwd = Inr ''/w'',
      packages_Load = (\<lambda>cfg pkgPath. ([\<lparr>ID = pkgPath, Errors = sample_errors\<rparr>], None))\<rparr>"

definition no_cwd_os :: os_env where
  "no_cwd_os = sample_os\<lparr>os_Getwd := Inl (OtherError ''getwd: no such file or directory'')\<rparr>"

text \<open>
  The same system with a loader that finds an error in \<open>a_test.go\<close>, which it reads
  only when it is asked for the test files.
\<close>

definition test_error :: packages_Error where
  "test_error = \<lparr>Pos = ''/w/pkg/a_test.go:5:1'', Msg = ''undeclared name: t'', Kind = 3\<rparr>"

definition tests_os :: os_env where
  "tests_os =
     sample_os\<lparr>packages_Load :=
       (\<lambda>cfg pkgPath. ([\<lparr>ID = pkgPath, Errors = (if Tests cfg then [test_error] else [])\<rparr>], None))\<rparr>"

definition sample_flags :: flags where
  "sample_flags = \<lparr>autoFiles = True, usePkgContext = True, workingDir = []\<rparr>"

declare ImportFrom.simps [simp del]

section \<open>Properties of the import resolver\<close>

subsection \<open>The cache only grows\<close>










lemmas sample_defs = sample_Importer_def sample_toolchain_def sample_Check_def not_found_def

lemma Join_w_dot: "Join ''/w'' ''.'' = ''/w''"
  by code_simp








subsection \<open>Failure of the type check during the fallback\<close>

text \<open>
  Claim C1: when the type check of the package found on disk fails, \<open>ImportFrom\<close> hands that
  failure to its caller and does not return a nil error.

  The code does not: the error \<open>Check\<close> returns is assigned to the inner \<open>err\<close> and never
  read, and the method ends with \<open>return pkg, nil\<close>. For the package \<open>bad\<close> of the sample,
  which the fast importer does not know and whose type check reports an undeclared name,
  \<open>ImportFrom\<close> returns the package with a nil error and stores it in the cache, whatever
  the bound on the call depth.
\<close>

theorem ImportFrom_drops_Check_error:
  "config_Check sample_Importer ''bad'' [File ''a.go'', File ''c.go''] =
     Return (Some (Package ''bad'')) (Some (OtherError ''bad.go:1:1: undeclared name: x'')) \<and>
   (\<exists>i'. ImportFrom n sample_toolchain sample_Importer ''bad'' ''.'' 0 =
           Some ((Some (Package ''bad''), None), i') \<and>
         packages i' ''bad'' = Some (Some (Package ''bad'')))"
  by (simp add: ImportFrom.simps sample_defs Join_w_dot Let_def)

subsection \<open>The second request for a path\<close>




subsection \<open>Entries of the cache are kept\<close>




subsection \<open>Failure of discovery or parsing\<close>

text \<open>
  Claim C7: on the fallback path (the path is not in the cache and the fast importer has
  failed), when \<open>build.Default.Import\<close> fails, or succeeds and \<open>parseFiles\<close> then fails,
  \<open>ImportFrom\<close> returns a nil package with that error and the cache is what it was. This
  holds for every bound on the call depth: the type checker is not reached.
\<close>

theorem ImportFrom_discovery_or_parse_failure:
  assumes miss: "packages i path = None"
    and fast: "snd (mainImporter_ImportFrom i path (Join (cwd i) srcDir) mode) \<noteq> None"
    and fail: "build_Default_Import T path (Join (cwd i) srcDir) = (buildPkg, Some e) \<or>
               build_Default_Import T path (Join (cwd i) srcDir) = (buildPkg, None) \<and>
               parseFiles T (build_Package.Dir buildPkg) (GoFiles buildPkg @ CgoFiles buildPkg)
                 = (files, Some e)"
  shows "\<exists>i'. ImportFrom n T i path srcDir mode = Some ((None, Some e), i') \<and>
              packages i' = packages i"
  using miss fast fail
  by (auto simp: ImportFrom.simps Let_def split: option.splits prod.splits)

theorem ImportFrom_discovery_or_parse_failure_witness:
  "packages sample_Importer ''broken'' = None \<and>
   snd (mainImporter_ImportFrom sample_Importer ''broken'' (Join (cwd sample_Importer) ''.'') 0)
     \<noteq> None \<and>
   (\<exists>buildPkg files.
      build_Default_Import sample_toolchain ''broken'' (Join (cwd sample_Importer) ''.'')
        = (buildPkg, None) \<and>
      parseFiles sample_toolchain (build_Package.Dir buildPkg)
          (GoFiles buildPkg @ CgoFiles buildPkg)
        = (files, Some (OtherError ''expected declaration''))) \<and>
   (\<exists>i'. ImportFrom 0 sample_toolchain sample_Importer ''broken'' ''.'' 0 =
           Some ((None, Some (OtherError ''expected declaration'')), i') \<and>
         packages i' = packages sample_Importer)"
proof -
  let ?bp = "\<lparr>build_Package.Dir = ''/src/broken'', GoFiles = [''a.go''], CgoFiles = [''c.go''],
              TestGoFiles = [''a_test.go'']\<rparr>"
  let ?e = "OtherError ''expected declaration''"
  have miss: "packages sample_Importer ''broken'' = None"
    by (simp add: sample_defs)
  have fast:
    "snd (mainImporter_ImportFrom sample_Importer ''broken'' (Join (cwd sample_Importer) ''.'') 0)
       \<noteq> None"
    by (simp add: sample_defs)
  have build:
    "build_Default_Import sample_toolchain ''broken'' (Join (cwd sample_Importer) ''.'')
       = (?bp, None)"
    by (simp add: sample_defs)
  have parse:
    "parseFiles sample_toolchain (build_Package.Dir ?bp) (GoFiles ?bp @ CgoFiles ?bp)
       = ([], Some ?e)"
    by (simp add: sample_defs)
  from build parse have fail:
    "build_Default_Import sample_toolchain ''broken'' (Join (cwd sample_Importer) ''.'')
       = (?bp, Some ?e) \<or>
     build_Default_Import sample_toolchain ''broken'' (Join (cwd sample_Importer) ''.'')
       = (?bp, None) \<and>
     parseFiles sample_toolchain (build_Package.Dir ?bp) (GoFiles ?bp @ CgoFiles ?bp)
       = ([], Some ?e)"
    by blast
  from ImportFrom_discovery_or_parse_failure [OF miss fast fail, of 0] miss fast build parse
  show ?thesis by blast
qed

subsection \<open>The one-argument method\<close>

text \<open>
  Claim C10: \<open>Import\<close> returns exactly what the fast importer's \<open>Import\<close> returns for the
  path. The only collaborator it invokes is that importer, once; it leaves the cache as it
  is, and its result does not depend on what the cache holds.
\<close>

theorem Import_bypasses_cache:
  "fst (Import i path) = mainImporter_Import i path \<and>
   snd (Import i path) = i\<lparr>calls := calls i @ [FastImport path]\<rparr> \<and>
   fst (Import (i\<lparr>packages := cache\<rparr>) path) = fst (Import i path)"
  by (simp add: Import_def split: prod.splits)

section \<open>Properties of the driver and of the diagnostic filter\<close>

subsection \<open>Strings, and what \<open>report\<close> does\<close>

lemma split_acc_0: "split_acc sep acc s ! 0 = rev acc @ takeWhile (\<lambda>c. c \<noteq> sep) s"
  by (induction s arbitrary: acc) auto

lemma position_file_takeWhile: "position_file err = takeWhile (\<lambda>c. c \<noteq> CHR '':'') (Pos err)"
  by (simp add: position_file_def Split_def split_acc_0)

lemma HasSuffix_iff: "HasSuffix s suffix \<longleftrightarrow> (\<exists>stem. s = stem @ suffix)"
proof
  assume "HasSuffix s suffix"
  then have "drop (length s - length suffix) s = suffix"
    by (simp add: HasSuffix_def)
  then have "s = take (length s - length suffix) s @ suffix"
    by (metis append_take_drop_id)
  then show "\<exists>stem. s = stem @ suffix" ..
next
  assume "\<exists>stem. s = stem @ suffix"
  then show "HasSuffix s suffix" by (auto simp: HasSuffix_def)
qed

lemma printed_neq: "st\<lparr>stderr := stderr st @ [ErrorLine err], errorCount := errorCount st + 1\<rparr> \<noteq> st"
proof
  assume "st\<lparr>stderr := stderr st @ [ErrorLine err], errorCount := errorCount st + 1\<rparr> = st"
  then have "errorCount (st\<lparr>stderr := stderr st @ [ErrorLine err], errorCount := errorCount st + 1\<rparr>)
               = errorCount st"
    by simp
  then show False by simp
qed

lemma report_cases:
  "report err r st =
     (if r = [] \<or> (case err of OtherError msg \<Rightarrow> True | PackagesError e \<Rightarrow> position_file e = r)
      then st\<lparr>stderr := stderr st @ [ErrorLine err], errorCount := errorCount st + 1\<rparr>
      else st)"
  by (simp add: report_def position_file_def Let_def split: error.splits)

lemma admitted_iff:
  "admitted err r st \<longleftrightarrow>
     r = [] \<or> (case err of OtherError msg \<Rightarrow> True | PackagesError e \<Rightarrow> position_file e = r)"
  unfolding admitted_def report_cases using printed_neq [of st err]
  by (auto simp del: One_nat_def)

lemma position_file_no_position:
  "Pos e = [] \<or> Pos e = ''-'' \<Longrightarrow> position_file e = Pos e"
  by (auto simp: position_file_takeWhile)

lemma report_all_stderr:
  "stderr (report_all r st errs) =
     stderr st @ map (ErrorLine \<circ> PackagesError) (filter (\<lambda>e. r = [] \<or> position_file e = r) errs)"
  unfolding report_all_def
  by (induction errs arbitrary: st) (auto simp: report_cases)

lemma roots_stderr:
  "stderr (foldl (\<lambda>st root. report_all r st (Errors root)) st roots) =
     stderr st @ map (ErrorLine \<circ> PackagesError)
       (filter (\<lambda>e. r = [] \<or> position_file e = r) (concat (map Errors roots)))"
  by (induction roots arbitrary: st) (auto simp: report_all_stderr)

lemma diagnostics_append: "diagnostics (xs @ ys) = diagnostics xs @ diagnostics ys"
  by (induction xs rule: diagnostics.induct) auto

lemma report_counted: "counted st \<Longrightarrow> counted (report err r st)"
  by (simp add: counted_def report_cases diagnostics_append)

lemma report_all_counted: "counted st \<Longrightarrow> counted (report_all r st errs)"
  unfolding report_all_def
  by (induction errs arbitrary: st) (auto intro: report_counted)

lemma roots_counted:
  "counted st \<Longrightarrow> counted (foldl (\<lambda>st root. report_all r st (Errors root)) st roots)"
  by (induction roots arbitrary: st) (auto intro: report_all_counted)

lemma loads_counted: "counted (st\<lparr>loads := l\<rparr>) = counted st"
  by (simp add: counted_def)

lemma checkPkgFiles_counted:
  "counted st \<Longrightarrow> checkPkgFiles E fl pkgPath targetFile st = Inr st' \<Longrightarrow> counted st'"
  by (auto simp: checkPkgFiles_def Let_def loads_counted
           split: sum.splits prod.splits option.splits if_splits
           intro!: report_counted roots_counted)


lemma checkPkgFiles_loaded:
  assumes wd: "(if workingDir fl = [] then os_Getwd E else Inr (workingDir fl)) = Inr wd"
    and abs: "filepath_Abs (os_Getwd E) targetFile = (restriction, None)"
    and load: "packages_Load E
                 \<lparr>Dir = wd, Mode = LoadTypes,
                  Tests = (autoFiles fl \<and> targetFile \<noteq> [] \<and> HasSuffix targetFile ''_test.go'')\<rparr>
                 pkgPath = (roots, None)"
  shows "checkPkgFiles E fl pkgPath targetFile st =
           Inr (foldl (\<lambda>st root. report_all restriction st (Errors root))
                  (st\<lparr>loads := loads st @
                     [(\<lparr>Dir = wd, Mode = LoadTypes,
                        Tests = (autoFiles fl \<and> targetFile \<noteq> [] \<and>
                                 HasSuffix targetFile ''_test.go'')\<rparr>, pkgPath)]\<rparr>)
                  roots)"
  using wd abs load by (simp add: checkPkgFiles_def Let_def)

lemma counted_initial: "counted initial_state"
  by (simp add: counted_def initial_state_def)

subsection \<open>Evaluations on the sample system\<close>

lemma Abs_a_go: "filepath_Abs (Inr ''/w'') ''pkg/a.go'' = (''/w/pkg/a.go'', None)"
  by code_simp

lemma Abs_abs_a_go: "filepath_Abs (Inr ''/w'') ''/w/pkg/a.go'' = (''/w/pkg/a.go'', None)"
  by code_simp

lemma position_file_rel: "position_file \<lparr>Pos = ''pkg/a.go:3:1'', Msg = m, Kind = k\<rparr> = ''pkg/a.go''"
  by (simp add: position_file_takeWhile)

lemmas sample_os_defs = sample_os_def sample_flags_def sample_errors_def no_cwd_os_def

lemma position_file_samples:
  "position_file \<lparr>Pos = ''/w/pkg/a.go:3:1'', Msg = m, Kind = k\<rparr> = ''/w/pkg/a.go''"
  "position_file \<lparr>Pos = ''/w/pkg/b.go:7:2'', Msg = m, Kind = k\<rparr> = ''/w/pkg/b.go''"
  by (simp_all add: position_file_takeWhile)

lemma Abs_a_test_go: "filepath_Abs (Inr ''/w'') ''pkg/a_test.go'' = (''/w/pkg/a_test.go'', None)"
  by code_simp

lemma Dir_a_go: "filepath_Dir ''/w/pkg/a.go'' = ''/w/pkg''"
  by code_simp

lemma HasPrefix_a_go: "HasPrefix ''/w/pkg/a.go'' ''./'' = False"
  by code_simp

lemma HasSuffix_a_go: "HasSuffix ''/w/pkg/a.go'' ''_test.go'' = False"
  by code_simp

subsection \<open>No path arguments\<close>

text \<open>
  Claim C2: given no path arguments, \<open>getPkgFiles\<close> returns no error and the unit is read
  from standard input, so that \<open>package foo\<close> on standard input gives no diagnostic and exit
  status 0.

  The code does not: only \<open>len(args) == 1\<close> is handled, and an empty argument list falls
  through to the error \<open>cannot specify more than one path\<close>. \<open>main\<close> reports it, which
  counts one diagnostic, and exits with 2; standard input is never read. The package
  comment and \<open>usageString\<close> both say that without paths the command reads standard input.
\<close>

theorem getPkgFiles_without_paths:
  "getPkgFiles E [] useContext =
     ([], [], Some (OtherError ''cannot specify more than one path'')) \<and>
   main E (Some (fl, [])) =
     (\<lparr>errorCount = 1,
       stderr = [ErrorLine (OtherError ''cannot specify more than one path'')],
       loads = []\<rparr>,
      Exit 2)"
  by (simp add: getPkgFiles_def main_def report_def initial_state_def)

subsection \<open>Diagnostics without a position\<close>

text \<open>
  Claim C3, as amended: a diagnostic without a file position is admitted (printed and
  counted) exactly when the restriction path is empty, or the diagnostic is not a
  \<open>packages.Error\<close>, or the restriction path is literally the \<open>Pos\<close> text of the
  diagnostic. So an error of any other type is admitted for every restriction path, while
  a \<open>packages.Error\<close> with an empty \<open>Pos\<close> is admitted only when no restriction is set.
  \<open>report\<close> has no test for a missing position: it compares the text before the first
  colon of \<open>Pos\<close> with the restriction.
\<close>

theorem report_without_position:
  assumes "\<not> carries_file_position err"
  shows "admitted err pathRestriction st \<longleftrightarrow>
           pathRestriction = [] \<or>
           (case err of OtherError msg \<Rightarrow> True | PackagesError e \<Rightarrow> Pos e = pathRestriction)"
proof (cases err)
  case (PackagesError e)
  with assms have "position_file e = Pos e"
    by (auto intro: position_file_no_position)
  with PackagesError show ?thesis by (simp add: admitted_iff)
next
  case (OtherError msg)
  then show ?thesis by (simp add: admitted_iff)
qed

theorem report_without_position_witness:
  "\<not> carries_file_position (OtherError ''cannot find package'') \<and>
   admitted (OtherError ''cannot find package'') ''/w/pkg/a.go'' initial_state \<and>
   \<not> carries_file_position (PackagesError \<lparr>Pos = ''-'', Msg = ''no Go files'', Kind = 1\<rparr>) \<and>
   \<not> admitted (PackagesError \<lparr>Pos = ''-'', Msg = ''no Go files'', Kind = 1\<rparr>)
        ''/w/pkg/a.go'' initial_state"
  using report_without_position [of "OtherError ''cannot find package''" "''/w/pkg/a.go''" initial_state]
    report_without_position [of "PackagesError \<lparr>Pos = ''-'', Msg = ''no Go files'', Kind = 1\<rparr>"
      "''/w/pkg/a.go''" initial_state]
  by simp

text \<open>
  The claim as it was stated, that every diagnostic without a position is admitted for
  every restriction path, fails for a \<open>packages.Error\<close> whose \<open>Pos\<close> is empty.
\<close>

theorem report_drops_error_without_position:
  "\<not> carries_file_position (PackagesError \<lparr>Pos = [], Msg = ''no Go files in /w/pkg'', Kind = 1\<rparr>) \<and>
   \<not> admitted (PackagesError \<lparr>Pos = [], Msg = ''no Go files in /w/pkg'', Kind = 1\<rparr>)
        ''/w/pkg/a.go'' initial_state"
  by (simp add: admitted_iff position_file_takeWhile)

subsection \<open>Diagnostics with a position\<close>

text \<open>
  Claim C4, as amended: \<open>checkPkgFiles\<close> makes the restriction path absolute with
  \<open>filepath.Abs\<close>; when it is not empty, \<open>report\<close> admits a \<open>packages.Error\<close> if and only
  if the text of its \<open>Pos\<close> before the first colon is, byte for byte, that restriction
  path. The position's path is compared as written and is not normalized. For a package
  load that succeeds, what is printed is, in order, the errors of the loaded packages that
  pass this comparison.
\<close>

theorem checkPkgFiles_filters_by_raw_path:
  assumes wd: "(if workingDir fl = [] then os_Getwd E else Inr (workingDir fl)) = Inr wd"
    and abs: "filepath_Abs (os_Getwd E) targetFile = (restriction, None)"
    and restricted: "restriction \<noteq> []"
    and load: "packages_Load E
                 \<lparr>Dir = wd, Mode = LoadTypes,
                  Tests = (autoFiles fl \<and> targetFile \<noteq> [] \<and> HasSuffix targetFile ''_test.go'')\<rparr>
                 pkgPath = (roots, None)"
  shows "(admitted (PackagesError pkgErr) restriction st \<longleftrightarrow>
            position_file pkgErr = restriction) \<and>
         (\<exists>st'. checkPkgFiles E fl pkgPath targetFile st = Inr st' \<and>
                stderr st' = stderr st @ map (ErrorLine \<circ> PackagesError)
                  (filter (\<lambda>e. position_file e = restriction) (concat (map Errors roots))))"
proof
  from restricted
  show "admitted (PackagesError pkgErr) restriction st \<longleftrightarrow> position_file pkgErr = restriction"
    by (simp add: admitted_iff)
next
  from restricted
  show "\<exists>st'. checkPkgFiles E fl pkgPath targetFile st = Inr st' \<and>
               stderr st' = stderr st @ map (ErrorLine \<circ> PackagesError)
                 (filter (\<lambda>e. position_file e = restriction) (concat (map Errors roots)))"
    by (simp add: checkPkgFiles_loaded [OF wd abs load] roots_stderr)
qed

theorem checkPkgFiles_filters_by_raw_path_witness:
  "(if workingDir sample_flags = [] then os_Getwd sample_os else Inr (workingDir sample_flags))
     = Inr ''/w'' \<and>
   filepath_Abs (os_Getwd sample_os) ''pkg/a.go'' = (''/w/pkg/a.go'', None) \<and>
   ''/w/pkg/a.go'' \<noteq> [] \<and>
   \<not> admitted (PackagesError \<lparr>Pos = ''/w/pkg/b.go:7:2'', Msg = ''undeclared name: y'', Kind = 3\<rparr>)
        ''/w/pkg/a.go'' initial_state \<and>
   (\<exists>st'. checkPkgFiles sample_os sample_flags ''./pkg'' ''pkg/a.go'' initial_state = Inr st' \<and>
          stderr st' =
            [ErrorLine (PackagesError
               \<lparr>Pos = ''/w/pkg/a.go:3:1'', Msg = ''undeclared name: x'', Kind = 3\<rparr>)])"
proof -
  let ?cfg = "\<lparr>Dir = ''/w'', Mode = LoadTypes,
               Tests = (autoFiles sample_flags \<and> ''pkg/a.go'' \<noteq> [] \<and>
                        HasSuffix ''pkg/a.go'' ''_test.go'')\<rparr>"
  have wd: "(if workingDir sample_flags = [] then os_Getwd sample_os
             else Inr (workingDir sample_flags)) = Inr ''/w''"
    by (simp add: sample_os_defs)
  have abs: "filepath_Abs (os_Getwd sample_os) ''pkg/a.go'' = (''/w/pkg/a.go'', None)"
    by (simp add: sample_os_defs Abs_a_go)
  have restricted: "''/w/pkg/a.go'' \<noteq> []"
    by simp
  have load: "packages_Load sample_os ?cfg ''./pkg''
                = ([\<lparr>ID = ''./pkg'', Errors = sample_errors\<rparr>], None)"
    by (simp add: sample_os_def)
  from checkPkgFiles_filters_by_raw_path [OF wd abs restricted load,
      of "\<lparr>Pos = ''/w/pkg/b.go:7:2'', Msg = ''undeclared name: y'', Kind = 3\<rparr>" initial_state]
  have "\<not> admitted
          (PackagesError \<lparr>Pos = ''/w/pkg/b.go:7:2'', Msg = ''undeclared name: y'', Kind = 3\<rparr>)
          ''/w/pkg/a.go'' initial_state \<and>
        (\<exists>st'. checkPkgFiles sample_os sample_flags ''./pkg'' ''pkg/a.go'' initial_state = Inr st' \<and>
          stderr st' =
            [ErrorLine (PackagesError
               \<lparr>Pos = ''/w/pkg/a.go:3:1'', Msg = ''undeclared name: x'', Kind = 3\<rparr>)])"
    by (simp add: sample_errors_def position_file_samples initial_state_def)
  with wd abs restricted show ?thesis by blast
qed

text \<open>
  The claim as it was stated, that the two paths are compared after both are made
  absolute, fails for a position written relative to the working directory: \<open>pkg/a.go\<close>
  and \<open>/w/pkg/a.go\<close> are the same file when the working directory is \<open>/w\<close>, and the
  diagnostic is dropped.
\<close>

theorem report_compares_raw_position:
  "carries_file_position
     (PackagesError \<lparr>Pos = ''pkg/a.go:3:1'', Msg = ''undeclared name: x'', Kind = 3\<rparr>) \<and>
   fst (filepath_Abs (Inr ''/w'')
          (position_file \<lparr>Pos = ''pkg/a.go:3:1'', Msg = ''undeclared name: x'', Kind = 3\<rparr>))
     = fst (filepath_Abs (Inr ''/w'') ''/w/pkg/a.go'') \<and>
   \<not> admitted (PackagesError \<lparr>Pos = ''pkg/a.go:3:1'', Msg = ''undeclared name: x'', Kind = 3\<rparr>)
        ''/w/pkg/a.go'' initial_state"
  by (simp add: position_file_rel Abs_a_go Abs_abs_a_go admitted_iff)

subsection \<open>The exit status\<close>

text \<open>
  Claim C8, as amended: the exit status is 0 if and only if no diagnostic was admitted, no
  usage error occurred and the run did not panic (\<open>checkPkgFiles\<close> panics when no \<open>-w\<close>
  directory is given and \<open>os.Getwd\<close> fails). The counter is the number of diagnostics
  written, so each admitted diagnostic is counted once, and a usage error or a counter
  that is not zero ends the process with exit code 2.
\<close>

theorem main_exit_status:
  "(exit_status (snd (main E parsed)) = 0 \<longleftrightarrow>
      diagnostics (stderr (fst (main E parsed))) = [] \<and> \<not> usage_error E parsed \<and>
      \<not> panicked (snd (main E parsed))) \<and>
   errorCount (fst (main E parsed)) = int (length (diagnostics (stderr (fst (main E parsed))))) \<and>
   (usage_error E parsed \<or> errorCount (fst (main E parsed)) \<noteq> 0
      \<longrightarrow> snd (main E parsed) = Exit 2)"
proof (cases parsed)
  case None
  then show ?thesis
    by (simp add: main_def usage_def usage_error_def initial_state_def)
next
  case (Some p)
  obtain fl args where p: "p = (fl, args)" by (cases p)
  obtain pkgPath targetFile err where
    g: "getPkgFiles E args (usePkgContext fl) = (pkgPath, targetFile, err)"
    by (cases "getPkgFiles E args (usePkgContext fl)")
  show ?thesis
  proof (cases err)
    case (Some e)
    with \<open>parsed = Some p\<close> p g show ?thesis
      by (simp add: main_def usage_error_def report_def initial_state_def)
  next
    case None
    note no_usage = this
    show ?thesis
    proof (cases "checkPkgFiles E fl pkgPath targetFile initial_state")
      case (Inl msg)
      with \<open>parsed = Some p\<close> p g no_usage show ?thesis
        by (simp add: main_def usage_error_def initial_state_def)
    next
      case (Inr st)
      from checkPkgFiles_counted [OF counted_initial Inr] have c: "counted st" .
      from c have "errorCount st = int (length (diagnostics (stderr st)))"
        by (simp add: counted_def)
      with \<open>parsed = Some p\<close> p g no_usage Inr show ?thesis
        by (auto simp: main_def usage_error_def)
    qed
  qed
qed

theorem main_exit_status_witness:
  "\<not> usage_error sample_os (Some (sample_flags, [''/w/pkg/a.go''])) \<and>
   errorCount (fst (main sample_os (Some (sample_flags, [''/w/pkg/a.go''])))) = 1 \<and>
   diagnostics (stderr (fst (main sample_os (Some (sample_flags, [''/w/pkg/a.go''])))))
     = [PackagesError \<lparr>Pos = ''/w/pkg/a.go:3:1'', Msg = ''undeclared name: x'', Kind = 3\<rparr>] \<and>
   snd (main sample_os (Some (sample_flags, [''/w/pkg/a.go'']))) = Exit 2"
proof -
  let ?run = "main sample_os (Some (sample_flags, [''/w/pkg/a.go'']))"
  have g: "getPkgFiles sample_os [''/w/pkg/a.go''] True = (''/w/pkg'', ''/w/pkg/a.go'', None)"
    by (simp add: getPkgFiles_def sample_os_def Dir_a_go HasPrefix_a_go)
  have usePkg: "usePkgContext sample_flags = True"
    by (simp add: sample_flags_def)
  have no_usage: "\<not> usage_error sample_os (Some (sample_flags, [''/w/pkg/a.go'']))"
    by (simp add: usage_error_def g usePkg)
  have c: "checkPkgFiles sample_os sample_flags ''/w/pkg'' ''/w/pkg/a.go'' initial_state =
             Inr \<lparr>errorCount = 1,
                  stderr = [ErrorLine (PackagesError
                     \<lparr>Pos = ''/w/pkg/a.go:3:1'', Msg = ''undeclared name: x'', Kind = 3\<rparr>)],
                  loads = [(\<lparr>Dir = ''/w'', Mode = LoadTypes, Tests = False\<rparr>, ''/w/pkg'')]\<rparr>"
    by (simp add: checkPkgFiles_def sample_os_defs Abs_abs_a_go HasSuffix_a_go
          report_all_def report_cases position_file_samples initial_state_def)
  have d: "diagnostics (stderr (fst ?run))
     = [PackagesError \<lparr>Pos = ''/w/pkg/a.go:3:1'', Msg = ''undeclared name: x'', Kind = 3\<rparr>]"
    by (simp add: main_def g c usePkg)
  from main_exit_status [of sample_os "Some (sample_flags, [''/w/pkg/a.go''])"] no_usage d
  show ?thesis by simp
qed

text \<open>
  The claim as it was stated, without the panic, fails when the working directory cannot
  be read: nothing is reported, the arguments are in order, and the process ends with
  status 2.
\<close>

theorem main_panics_without_diagnostic:
  "snd (main no_cwd_os (Some (sample_flags, [''/w/pkg''])))
     = Panicked ''getwd: no such file or directory'' \<and>
   exit_status (snd (main no_cwd_os (Some (sample_flags, [''/w/pkg''])))) \<noteq> 0 \<and>
   diagnostics (stderr (fst (main no_cwd_os (Some (sample_flags, [''/w/pkg''])))) ) = [] \<and>
   \<not> usage_error no_cwd_os (Some (sample_flags, [''/w/pkg'']))"
  by (simp add: main_def getPkgFiles_def checkPkgFiles_def usage_error_def sample_os_defs
        initial_state_def)

subsection \<open>Test files\<close>

text \<open>
  Claim C9: whenever \<open>checkPkgFiles\<close> gets as far as loading the package (the working
  directory is known and \<open>filepath.Abs\<close> succeeds), what it reports is what
  \<open>packages.Load\<close> returns for the configuration whose \<open>Tests\<close> field is set if and only
  if \<open>-a\<close> is on, the restriction file is set and its name ends in \<open>_test.go\<close>: the error
  of the load, or else the errors of the packages loaded, filtered by the restriction. So
  the test files are part of the check exactly under that condition. With a loader that
  reads \<open>a_test.go\<close> only when asked for the test files, the error in \<open>a_test.go\<close> is
  reported for the target \<open>pkg/a_test.go\<close>, and for the target \<open>pkg/a.go\<close> nothing is.
\<close>

theorem checkPkgFiles_includes_tests_iff:
  assumes wd: "(if workingDir fl = [] then os_Getwd E else Inr (workingDir fl)) = Inr wd"
    and abs: "filepath_Abs (os_Getwd E) targetFile = (restriction, None)"
  shows "checkPkgFiles E fl pkgPath targetFile st =
           (let cfg = \<lparr>Dir = wd, Mode = LoadTypes,
                       Tests = (autoFiles fl \<and> targetFile \<noteq> [] \<and>
                                (\<exists>stem. targetFile = stem @ ''_test.go''))\<rparr>;
                loaded = packages_Load E cfg pkgPath;
                st1 = st\<lparr>loads := loads st @ [(cfg, pkgPath)]\<rparr>
            in case snd loaded of
                 Some err \<Rightarrow> Inr (report err restriction st1)
               | None \<Rightarrow>
                   Inr (foldl (\<lambda>st root. report_all restriction st (Errors root)) st1
                          (fst loaded)))"
  using wd abs
  by (simp add: checkPkgFiles_def Let_def HasSuffix_iff split: prod.splits option.splits)

lemma a_test_go_suffix: "\<exists>stem. ''pkg/a_test.go'' = stem @ ''_test.go''"
  by (rule exI [of _ "''pkg/a''"]) simp

lemma a_go_suffix: "\<not> (\<exists>stem. ''pkg/a.go'' = stem @ ''_test.go'')"
  unfolding HasSuffix_iff [symmetric] by code_simp

lemma position_file_test_error: "position_file test_error = ''/w/pkg/a_test.go''"
  by (simp add: position_file_takeWhile test_error_def)

theorem checkPkgFiles_includes_tests_iff_witness:
  "(if workingDir sample_flags = [] then os_Getwd tests_os else Inr (workingDir sample_flags))
     = Inr ''/w'' \<and>
   filepath_Abs (os_Getwd tests_os) ''pkg/a_test.go'' = (''/w/pkg/a_test.go'', None) \<and>
   checkPkgFiles tests_os sample_flags ''./pkg'' ''pkg/a_test.go'' initial_state =
     Inr \<lparr>errorCount = 1,
          stderr = [ErrorLine (PackagesError test_error)],
          loads = [(\<lparr>Dir = ''/w'', Mode = LoadTypes, Tests = True\<rparr>, ''./pkg'')]\<rparr> \<and>
   filepath_Abs (os_Getwd tests_os) ''pkg/a.go'' = (''/w/pkg/a.go'', None) \<and>
   checkPkgFiles tests_os sample_flags ''./pkg'' ''pkg/a.go'' initial_state =
     Inr \<lparr>errorCount = 0,
          stderr = [],
          loads = [(\<lparr>Dir = ''/w'', Mode = LoadTypes, Tests = False\<rparr>, ''./pkg'')]\<rparr>"
proof -
  have wd: "(if workingDir sample_flags = [] then os_Getwd tests_os
             else Inr (workingDir sample_flags)) = Inr ''/w''"
    by (simp add: tests_os_def sample_os_defs)
  have abs_test:
    "filepath_Abs (os_Getwd tests_os) ''pkg/a_test.go'' = (''/w/pkg/a_test.go'', None)"
    by (simp add: tests_os_def sample_os_defs Abs_a_test_go)
  have abs_plain: "filepath_Abs (os_Getwd tests_os) ''pkg/a.go'' = (''/w/pkg/a.go'', None)"
    by (simp add: tests_os_def sample_os_defs Abs_a_go)
  have auto_on: "autoFiles sample_flags"
    by (simp add: sample_flags_def)
  from checkPkgFiles_includes_tests_iff [OF wd abs_test, of "''./pkg''" initial_state]
  have with_tests:
    "checkPkgFiles tests_os sample_flags ''./pkg'' ''pkg/a_test.go'' initial_state =
       Inr \<lparr>errorCount = 1,
            stderr = [ErrorLine (PackagesError test_error)],
            loads = [(\<lparr>Dir = ''/w'', Mode = LoadTypes, Tests = True\<rparr>, ''./pkg'')]\<rparr>"
    by (simp add: auto_on a_test_go_suffix tests_os_def sample_os_def Let_def report_all_def
          report_cases position_file_test_error initial_state_def)
  from checkPkgFiles_includes_tests_iff [OF wd abs_plain, of "''./pkg''" initial_state]
  have without_tests:
    "checkPkgFiles tests_os sample_flags ''./pkg'' ''pkg/a.go'' initial_state =
       Inr \<lparr>errorCount = 0,
            stderr = [],
            loads = [(\<lparr>Dir = ''/w'', Mode = LoadTypes, Tests = False\<rparr>, ''./pkg'')]\<rparr>"
    by (simp add: a_go_suffix tests_os_def sample_os_def Let_def report_all_def initial_state_def)
  from wd abs_test with_tests abs_plain without_tests show ?thesis by blast
qed

end
